theory Spec2Isabelle
  imports Complex_Main
begin

section \<open>The Python values, exceptions and built-ins that menu.py uses\<close>

text \<open>
  The repository is one module, \<^verbatim>\<open>menu.py\<close>: menu items, a base menu that numbers
  and prints them, and two selection loops over the console. Its functions are
  embedded below as HOL functions. What Python leaves implicit is explicit here:
  an exception is the \<open>Inl\<close> branch of a sum, the console is a list of lines still
  to be read together with the text written so far, and the state that the
  callbacks change is passed along.
\<close>

text \<open>
  An option value is an arbitrary Python \<^verbatim>\<open>object\<close>; the objects below are the ones
  the development needs. \<open>PyNone\<close> is Python's \<^verbatim>\<open>None\<close>: it is an object like the
  others, and it is what a function returns when it ends without a
  \<^verbatim>\<open>return\<close> statement.
\<close>

datatype py_object = PyNone | PyBool bool | PyInt int | PyStr string

text \<open>
  The exceptions. Python raises \<^verbatim>\<open>ValueError\<close> from several built-ins; the
  argument records which one raised it: \<^verbatim>\<open>math.log\<close> (math domain error),
  \<^verbatim>\<open>int\<close> (invalid literal, or more digits than the conversion limit) or
  \<^verbatim>\<open>str.format\<close> (malformed template).
  A callback may raise an exception of any class: \<open>IndexErrorSubclass\<close> is an
  instance of a subclass of \<^verbatim>\<open>IndexError\<close>, by the name of the subclass, and
  \<open>UserError\<close> is an instance of any other class that is not listed and does not
  derive from \<^verbatim>\<open>IndexError\<close>, by its name.
  \<open>NotModelled\<close> marks the replacement fields of \<^verbatim>\<open>str.format\<close> that this
  development does not interpret.
\<close>

datatype value_error = MathDomain | InvalidLiteral | BadFormat

datatype py_error =
    IndexError
  | IndexErrorSubclass string
  | ValueError value_error
  | EOFError
  | AttributeError
  | TypeError
  | UserError string
  | NotModelled

text \<open>
  \<^verbatim>\<open>except IndexError\<close> catches the instances of \<^verbatim>\<open>IndexError\<close> and of its
  subclasses: the exceptions \<open>e\<close> with \<^verbatim>\<open>isinstance(e, IndexError)\<close>.
\<close>

definition is_IndexError :: "py_error \<Rightarrow> bool" where
  "is_IndexError e =
     (case e of IndexError \<Rightarrow> True | IndexErrorSubclass cls \<Rightarrow> True | _ \<Rightarrow> False)"

text \<open>
  A call binds each parameter to the argument passed for it, or to the
  parameter's default when the call omits it; omitting a parameter that has no
  default raises \<^verbatim>\<open>TypeError\<close>.
\<close>

datatype 'a arg = Omitted | Passed 'a

definition required :: "'a arg \<Rightarrow> py_error + 'a" where
  "required a = (case a of Omitted \<Rightarrow> Inl TypeError | Passed x \<Rightarrow> Inr x)"

definition with_default :: "'a \<Rightarrow> 'a arg \<Rightarrow> 'a" where
  "with_default d a = (case a of Omitted \<Rightarrow> d | Passed x \<Rightarrow> x)"

subsection \<open>Decimal text of a number: \<^verbatim>\<open>str(n)\<close>\<close>

definition newline :: char where
  "newline = CHR 0x0A"

definition digit_char :: "nat \<Rightarrow> char" where
  "digit_char d = ''0123456789'' ! d"

fun str_nat :: "nat \<Rightarrow> string" where
  "str_nat n =
     (if n < 10 then [digit_char n] else str_nat (n div 10) @ [digit_char (n mod 10)])"

declare str_nat.simps [simp del]

text \<open>
  \<^verbatim>\<open>f"{i:{width}}"\<close> puts the decimal text of \<open>width\<close> into the format
  specification of the integer \<open>i\<close>. A positive \<open>width\<close> is the minimum field width;
  an integer is right-aligned in it and padded with spaces, and never truncated.
  The specification \<^verbatim>\<open>0\<close> is the zero-padding flag with no width, and \<^verbatim>\<open>-3\<close> is
  the sign option \<^verbatim>\<open>-\<close> followed by the width 3: in all three cases the field
  is padded with spaces on the left up to the absolute value of \<open>width\<close>.
\<close>

definition format_width :: "nat \<Rightarrow> int \<Rightarrow> string" where
  "format_width i width =
     (let s = str_nat i in replicate (nat \<bar>width\<bar> - length s) CHR '' '' @ s)"

text \<open>\<^verbatim>\<open>f"{x}"\<close> and \<^verbatim>\<open>print(x)\<close> on a text or on \<^verbatim>\<open>None\<close>.\<close>

definition str_opt :: "string option \<Rightarrow> string" where
  "str_opt x = (case x of None \<Rightarrow> ''None'' | Some s \<Rightarrow> s)"

subsection \<open>\<^verbatim>\<open>int(s)\<close> on a line of text\<close>

text \<open>
  \<^verbatim>\<open>int\<close> in base 10 strips white space on both sides, reads an optional sign and
  then decimal digits, where single underscores may stand between digits;
  anything else raises \<^verbatim>\<open>ValueError\<close>, and so does, by default, a text with more
  than 4300 digits. A \<open>string\<close> is the list of the code points of a text, each
  below 256. The white space that \<^verbatim>\<open>int\<close> strips is then tab, line feed,
  vertical tab, form feed, carriage return and space, and beyond ASCII the next
  line character and the no-break space; the only decimal digits are 0 to 9.
  Texts with higher code points are outside this type.
\<close>

definition py_isspace :: "char \<Rightarrow> bool" where
  "py_isspace c =
     (c \<in> set [CHR 0x09, CHR 0x0A, CHR 0x0B, CHR 0x0C, CHR 0x0D, CHR 0x20,
                CHR 0x85, CHR 0xA0])"

definition max_str_digits :: nat where
  "max_str_digits = 4300"

definition py_isdigit :: "char \<Rightarrow> bool" where
  "py_isdigit c = (48 \<le> (of_char c :: nat) \<and> (of_char c :: nat) \<le> 57)"

definition digit_val :: "char \<Rightarrow> int" where
  "digit_val c = int (of_char c) - 48"

definition strip :: "string \<Rightarrow> string" where
  "strip s = rev (dropWhile py_isspace (rev (dropWhile py_isspace s)))"

text \<open>
  \<open>more_digits acc cs\<close> reads what follows a digit: the end, another digit, or
  an underscore and a digit.
\<close>

fun more_digits :: "int \<Rightarrow> string \<Rightarrow> int option" where
  "more_digits acc [] = Some acc"
| "more_digits acc [c] = (if py_isdigit c then Some (10 * acc + digit_val c) else None)"
| "more_digits acc (c # d # cs) =
     (if py_isdigit c then more_digits (10 * acc + digit_val c) (d # cs)
      else if c = CHR ''_'' \<and> py_isdigit d then more_digits (10 * acc + digit_val d) cs
      else None)"

definition digits :: "string \<Rightarrow> int option" where
  "digits s =
     (case s of [] \<Rightarrow> None
      | c # cs \<Rightarrow> if py_isdigit c then more_digits (digit_val c) cs else None)"

definition py_int :: "string \<Rightarrow> py_error + int" where
  "py_int s =
     (let t = strip s;
          r = (case t of [] \<Rightarrow> None
               | c # cs \<Rightarrow>
                   if c = CHR ''-'' then map_option uminus (digits cs)
                   else if c = CHR ''+'' then digits cs
                   else digits t)
      in case r of
           None \<Rightarrow> Inl (ValueError InvalidLiteral)
         | Some n \<Rightarrow>
             if max_str_digits < length (filter py_isdigit t)
             then Inl (ValueError InvalidLiteral)
             else Inr n)"

subsection \<open>\<^verbatim>\<open>template.format(n)\<close> with one positional argument\<close>

text \<open>
  \<open>str_format used template n\<close> scans the template from the left; \<open>used\<close> says
  that an automatically numbered field \<^verbatim>\<open>{}\<close> has already taken the only
  argument. \<^verbatim>\<open>{{\<close> and \<^verbatim>\<open>}}\<close> are the escaped braces; the first \<^verbatim>\<open>{}\<close>
  becomes the decimal text of \<open>n\<close>, a second one raises \<^verbatim>\<open>IndexError\<close>
  (replacement index out of range); a single \<^verbatim>\<open>}\<close> and a \<^verbatim>\<open>{\<close> at the end
  raise \<^verbatim>\<open>ValueError\<close>. A field with a name, an index, a conversion or a
  format specification is not interpreted.
\<close>

fun str_format :: "bool \<Rightarrow> string \<Rightarrow> nat \<Rightarrow> py_error + string" where
  "str_format used [] n = Inr []"
| "str_format used [c] n =
     (if c = CHR ''{'' \<or> c = CHR ''}'' then Inl (ValueError BadFormat) else Inr [c])"
| "str_format used (c # d # cs) n =
     (if c = CHR ''{'' then
        (if d = CHR ''{'' then map_sum id ((#) CHR ''{'') (str_format used cs n)
         else if d = CHR ''}'' then
           (if used then Inl IndexError
            else map_sum id ((@) (str_nat n)) (str_format True cs n))
         else Inl NotModelled)
      else if c = CHR ''}'' then
        (if d = CHR ''}'' then map_sum id ((#) CHR ''}'') (str_format used cs n)
         else Inl (ValueError BadFormat))
      else map_sum id ((#) c) (str_format used (d # cs) n))"

subsection \<open>List indexing, \<^verbatim>\<open>math.log\<close> and \<^verbatim>\<open>math.floor\<close>\<close>

text \<open>
  \<^verbatim>\<open>xs[i]\<close>: a negative index counts from the end of the list; an index outside
  \<open>-len(xs) \<le> i < len(xs)\<close> raises \<^verbatim>\<open>IndexError\<close>.
\<close>

definition py_index :: "'a list \<Rightarrow> int \<Rightarrow> py_error + 'a" where
  "py_index xs i =
     (if 0 \<le> i \<and> i < int (length xs) then Inr (xs ! nat i)
      else if - int (length xs) \<le> i \<and> i < 0 then Inr (xs ! nat (i + int (length xs)))
      else Inl IndexError)"

text \<open>
  \<^verbatim>\<open>math.log(n, 10)\<close> on an integer \<open>n\<close> raises \<^verbatim>\<open>ValueError\<close> (math domain
  error) for \<open>n = 0\<close>. For \<open>n > 0\<close> it is the quotient of the two double-precision
  numbers that the C library gives for \<open>log n\<close> and \<open>log 10\<close>, rounded to a double
  again. The rounding of the C library is not modelled: the function \<open>lg\<close> that
  maps \<open>n > 0\<close> to that double is a parameter of the development, and the
  theorems below hold for every \<open>lg\<close>, or say what they need of it.
\<close>

definition math_log10 :: "(nat \<Rightarrow> real) \<Rightarrow> nat \<Rightarrow> py_error + real" where
  "math_log10 lg n = (if n = 0 then Inl (ValueError MathDomain) else Inr (lg n))"

definition math_floor :: "real \<Rightarrow> int" where
  "math_floor x = \<lfloor>x\<rfloor>"

text \<open>
  \<^verbatim>\<open>print(s)\<close> writes the text and a line end to the output; the output is the
  text written so far.
\<close>

definition py_print :: "string \<Rightarrow> string \<Rightarrow> string" where
  "py_print s out = out @ s @ [newline]"

section \<open>Menu items\<close>

text \<open>
  \<^verbatim>\<open>BaseMenuItem\<close>, \<^verbatim>\<open>MenuItem\<close> and \<^verbatim>\<open>OptionMenuItem\<close>. The constructors store
  their arguments and check nothing; \<open>display\<close> is annotated \<^verbatim>\<open>str\<close>, and since
  Python does not enforce the annotation it may be \<^verbatim>\<open>None\<close> (\<open>None\<close> here). A
  callback takes no argument; it acts on the state \<open>'s\<close> of the application,
  and returns a value or raises. Callbacks that read the menu's own console or
  change the menu are outside the model.
\<close>

record BaseMenuItem =
  display :: "string option"

record ('s, 'r) MenuItem = BaseMenuItem +
  callback :: "'s \<Rightarrow> (py_error + 'r) \<times> 's"

record OptionMenuItem = BaseMenuItem +
  "value" :: py_object

definition MenuItem_init ::
  "string option arg \<Rightarrow> ('s \<Rightarrow> (py_error + 'r) \<times> 's) arg \<Rightarrow> py_error + ('s, 'r) MenuItem" where
  "MenuItem_init display_arg callback_arg =
     (case required display_arg of Inl e \<Rightarrow> Inl e
      | Inr d \<Rightarrow>
          (case required callback_arg of Inl e \<Rightarrow> Inl e
           | Inr cb \<Rightarrow> Inr \<lparr>display = d, callback = cb\<rparr>))"

definition OptionMenuItem_init ::
  "string option arg \<Rightarrow> py_object arg \<Rightarrow> py_error + OptionMenuItem" where
  "OptionMenuItem_init display_arg value_arg =
     (case required display_arg of Inl e \<Rightarrow> Inl e
      | Inr d \<Rightarrow>
          (case required value_arg of Inl e \<Rightarrow> Inl e
           | Inr v \<Rightarrow> Inr \<lparr>display = d, value = v\<rparr>))"

section \<open>The base menu\<close>

record 'i BaseMenu =
  menu_items :: "'i list"
  exit_text :: string
  invalid_option_text :: string
  selection_text :: string
  name :: "string option"
  display_exit :: bool

definition default_exit_text :: string where
  "default_exit_text = ''Exit''"

definition default_invalid_option_text :: string where
  "default_invalid_option_text = ''Invalid option''"

definition default_selection_text :: string where
  "default_selection_text = ''Please select an option [0-{}]: ''"

definition BaseMenu_init :: "string option \<Rightarrow> bool \<Rightarrow> 'i BaseMenu" where
  "BaseMenu_init nm dexit =
     \<lparr>menu_items = [],
      exit_text = default_exit_text,
      invalid_option_text = default_invalid_option_text,
      selection_text = default_selection_text,
      name = nm,
      display_exit = dexit\<rparr>"

definition len :: "'i BaseMenu \<Rightarrow> nat" where
  "len m = length (menu_items m)"

definition add_item :: "'i BaseMenu \<Rightarrow> 'i \<Rightarrow> 'i BaseMenu" where
  "add_item m item = m\<lparr>menu_items := menu_items m @ [item]\<rparr>"

definition add_items :: "'i BaseMenu \<Rightarrow> 'i list \<Rightarrow> 'i BaseMenu" where
  "add_items m items = foldl add_item m items"

text \<open>
  \<^verbatim>\<open>get_selection\<close> reads \<^verbatim>\<open>menu_items[selection - 1]\<close> and raises
  \<^verbatim>\<open>IndexError\<close> again when the read raised it.
\<close>

definition get_selection :: "'i BaseMenu \<Rightarrow> int \<Rightarrow> py_error + 'i" where
  "get_selection m selection =
     (case py_index (menu_items m) (selection - 1) of
        Inl e \<Rightarrow> if is_IndexError e then Inl IndexError else Inl e
      | Inr item \<Rightarrow> Inr item)"

text \<open>
  \<^verbatim>\<open>print\<close>: the width is computed first, so a failure of \<^verbatim>\<open>math.log\<close> leaves the
  output as it was. \<^verbatim>\<open>print("\n")\<close> writes a line end after the line end of its
  argument. The items are numbered from 1.
\<close>

definition item_line :: "int \<Rightarrow> nat \<Rightarrow> 'z BaseMenuItem_scheme \<Rightarrow> string" where
  "item_line width i menu_item = format_width i width @ '': '' @ str_opt (display menu_item)"

fun print_items :: "int \<Rightarrow> nat \<Rightarrow> 'z BaseMenuItem_scheme list \<Rightarrow> string \<Rightarrow> string" where
  "print_items width i [] out = out"
| "print_items width i (menu_item # rest) out =
     print_items width (Suc i) rest (py_print (item_line width i menu_item) out)"

definition BaseMenu_print ::
  "(nat \<Rightarrow> real) \<Rightarrow> 'z BaseMenuItem_scheme BaseMenu \<Rightarrow> string \<Rightarrow> (py_error + unit) \<times> string" where
  "BaseMenu_print lg m out =
     (case math_log10 lg (len m) of
        Inl e \<Rightarrow> (Inl e, out)
      | Inr x \<Rightarrow>
          (let width = math_floor x + 1;
               out1 = py_print [newline] out;
               out2 = (case name m of None \<Rightarrow> out1 | Some nm \<Rightarrow> py_print nm out1);
               out3 = print_items width 1 (menu_items m) out2;
               out4 = (if display_exit m
                       then py_print (format_width 0 width @ '': '' @ exit_text m) out3
                       else out3)
           in (Inr (), out4)))"

section \<open>The menu with callbacks\<close>

definition Menu_init :: "string option \<Rightarrow> ('s, 'r) MenuItem BaseMenu" where
  "Menu_init nm = BaseMenu_init nm True"

text \<open>
  The text of the prompt, \<^verbatim>\<open>self.selection_text.format(len(self))\<close>, and
  \<^verbatim>\<open>input(prompt)\<close>, which writes the prompt and then reads a line, or raises
  \<^verbatim>\<open>EOFError\<close> when there is none.
\<close>

definition prompt_text :: "'i BaseMenu \<Rightarrow> py_error + string" where
  "prompt_text m = str_format False (selection_text m) (len m)"

text \<open>
  The body of the \<^verbatim>\<open>try\<close> statement of \<^verbatim>\<open>Menu.display\<close>: the item is looked up
  and its callback is called; what the callback returns is dropped.
\<close>

definition Menu_try :: "('s, 'r) MenuItem BaseMenu \<Rightarrow> int \<Rightarrow> 's \<Rightarrow> (py_error + unit) \<times> 's" where
  "Menu_try m selection s =
     (case get_selection m selection of
        Inl e \<Rightarrow> (Inl e, s)
      | Inr item \<Rightarrow>
          (case callback item s of
             (Inl e, s1) \<Rightarrow> (Inl e, s1)
           | (Inr r, s1) \<Rightarrow> (Inr (), s1)))"

text \<open>
  The \<^verbatim>\<open>try\<close> statement with its handler: \<^verbatim>\<open>except IndexError\<close> prints the
  invalid-option text, whether the lookup or the callback raised the exception;
  every other exception leaves the statement.
\<close>

definition Menu_dispatch ::
  "('s, 'r) MenuItem BaseMenu \<Rightarrow> int \<Rightarrow> string \<Rightarrow> 's \<Rightarrow> (py_error + unit) \<times> string \<times> 's" where
  "Menu_dispatch m selection out s =
     (case Menu_try m selection s of
        (Inl e, s1) \<Rightarrow>
          if is_IndexError e then (Inr (), py_print (invalid_option_text m) out, s1)
          else (Inl e, out, s1)
      | (Inr u, s1) \<Rightarrow> (Inr (), out, s1))"

text \<open>
  The \<^verbatim>\<open>while\<close> loop of \<^verbatim>\<open>Menu.display\<close>. Its condition formats the prompt, reads
  a line and converts it, outside the \<^verbatim>\<open>try\<close> statement; the loop ends when the
  number is 0. Each round reads one line, so the loop is a recursion on the
  lines still to be read. The result holds the lines left unread, the output
  and the state of the application.
\<close>

fun Menu_loop ::
  "(nat \<Rightarrow> real) \<Rightarrow> ('s, 'r) MenuItem BaseMenu \<Rightarrow> string list \<Rightarrow> string \<Rightarrow> 's
     \<Rightarrow> (py_error + unit) \<times> string list \<times> string \<times> 's" where
  "Menu_loop lg m [] out s =
     (case prompt_text m of
        Inl e \<Rightarrow> (Inl e, [], out, s)
      | Inr prompt \<Rightarrow> (Inl EOFError, [], out @ prompt, s))"
| "Menu_loop lg m (line # rest) out s =
     (case prompt_text m of
        Inl e \<Rightarrow> (Inl e, line # rest, out, s)
      | Inr prompt \<Rightarrow>
          (case py_int line of
             Inl e \<Rightarrow> (Inl e, rest, out @ prompt, s)
           | Inr selection \<Rightarrow>
               if selection = 0 then (Inr (), rest, out @ prompt, s)
               else
                 (case Menu_dispatch m selection (out @ prompt) s of
                    (Inl e, out1, s1) \<Rightarrow> (Inl e, rest, out1, s1)
                  | (Inr u, out1, s1) \<Rightarrow>
                      (case BaseMenu_print lg m out1 of
                         (Inl e, out2) \<Rightarrow> (Inl e, rest, out2, s1)
                       | (Inr u, out2) \<Rightarrow> Menu_loop lg m rest out2 s1))))"

definition Menu_display ::
  "(nat \<Rightarrow> real) \<Rightarrow> ('s, 'r) MenuItem BaseMenu \<Rightarrow> string list \<Rightarrow> string \<Rightarrow> 's
     \<Rightarrow> (py_error + unit) \<times> string list \<times> string \<times> 's" where
  "Menu_display lg m inp out s =
     (case BaseMenu_print lg m out of
        (Inl e, out1) \<Rightarrow> (Inl e, inp, out1, s)
      | (Inr u, out1) \<Rightarrow> Menu_loop lg m inp out1 s)"

text \<open>
  \<^verbatim>\<open>items.items()\<close>: a dictionary gives its pairs in insertion order; \<^verbatim>\<open>None\<close>
  has no such attribute.
\<close>

definition dict_items :: "('k \<times> 'v) list option \<Rightarrow> py_error + ('k \<times> 'v) list" where
  "dict_items d = (case d of None \<Rightarrow> Inl AttributeError | Some kvs \<Rightarrow> Inr kvs)"

text \<open>A list comprehension over calls that may raise stops at the first exception.\<close>

fun comprehension :: "('a \<Rightarrow> py_error + 'b) \<Rightarrow> 'a list \<Rightarrow> py_error + 'b list" where
  "comprehension f [] = Inr []"
| "comprehension f (x # xs) =
     (case f x of
        Inl e \<Rightarrow> Inl e
      | Inr y \<Rightarrow> (case comprehension f xs of Inl e \<Rightarrow> Inl e | Inr ys \<Rightarrow> Inr (y # ys)))"

text \<open>
  \<^verbatim>\<open>BasicMenu(name, items)\<close>: both parameters default to \<^verbatim>\<open>None\<close>. The
  constructor builds the items, adds them and runs the loop.
\<close>

definition BasicMenu_init ::
  "(nat \<Rightarrow> real) \<Rightarrow> string option arg \<Rightarrow> (string \<times> ('s \<Rightarrow> (py_error + 'r) \<times> 's)) list option arg
     \<Rightarrow> string list \<Rightarrow> string \<Rightarrow> 's
     \<Rightarrow> (py_error + ('s, 'r) MenuItem BaseMenu) \<times> string list \<times> string \<times> 's" where
  "BasicMenu_init lg name_arg items_arg inp out s =
     (let nm = with_default None name_arg;
          items = with_default None items_arg;
          self = Menu_init nm
      in case dict_items items of
           Inl e \<Rightarrow> (Inl e, inp, out, s)
         | Inr kvs \<Rightarrow>
             (case comprehension (\<lambda>(k, v). MenuItem_init (Passed (Some k)) (Passed v)) kvs of
                Inl e \<Rightarrow> (Inl e, inp, out, s)
              | Inr new_items \<Rightarrow>
                  (let self1 = add_items self new_items
                   in case Menu_display lg self1 inp out s of
                        (Inl e, w) \<Rightarrow> (Inl e, w)
                      | (Inr u, w) \<Rightarrow> (Inr self1, w))))"

section \<open>The option menu\<close>

definition OptionMenu_init :: "string option \<Rightarrow> OptionMenuItem BaseMenu" where
  "OptionMenu_init nm = BaseMenu_init nm False"

text \<open>
  The \<^verbatim>\<open>try\<close> statement of \<^verbatim>\<open>OptionMenu.display\<close>: \<open>Some v\<close> is
  \<^verbatim>\<open>return item.value\<close>, which leaves the loop and the function; \<open>None\<close> is the
  handler's way on to the statement after the \<^verbatim>\<open>try\<close>.
\<close>

definition OptionMenu_dispatch ::
  "OptionMenuItem BaseMenu \<Rightarrow> int \<Rightarrow> string \<Rightarrow> (py_error + py_object option) \<times> string" where
  "OptionMenu_dispatch m selection out =
     (case get_selection m selection of
        Inl e \<Rightarrow>
          if is_IndexError e then (Inr None, py_print (invalid_option_text m) out)
          else (Inl e, out)
      | Inr item \<Rightarrow> (Inr (Some (value item)), out))"

text \<open>
  The loop of \<^verbatim>\<open>OptionMenu.display\<close>. When the number read is 0 the loop ends
  and so does the function, without a \<^verbatim>\<open>return\<close> statement: the result is
  \<^verbatim>\<open>None\<close>.
\<close>

fun OptionMenu_loop ::
  "(nat \<Rightarrow> real) \<Rightarrow> OptionMenuItem BaseMenu \<Rightarrow> string list \<Rightarrow> string
     \<Rightarrow> (py_error + py_object) \<times> string list \<times> string" where
  "OptionMenu_loop lg m [] out =
     (case prompt_text m of
        Inl e \<Rightarrow> (Inl e, [], out)
      | Inr prompt \<Rightarrow> (Inl EOFError, [], out @ prompt))"
| "OptionMenu_loop lg m (line # rest) out =
     (case prompt_text m of
        Inl e \<Rightarrow> (Inl e, line # rest, out)
      | Inr prompt \<Rightarrow>
          (case py_int line of
             Inl e \<Rightarrow> (Inl e, rest, out @ prompt)
           | Inr selection \<Rightarrow>
               if selection = 0 then (Inr PyNone, rest, out @ prompt)
               else
                 (case OptionMenu_dispatch m selection (out @ prompt) of
                    (Inl e, out1) \<Rightarrow> (Inl e, rest, out1)
                  | (Inr (Some v), out1) \<Rightarrow> (Inr v, rest, out1)
                  | (Inr None, out1) \<Rightarrow>
                      (case BaseMenu_print lg m out1 of
                         (Inl e, out2) \<Rightarrow> (Inl e, rest, out2)
                       | (Inr u, out2) \<Rightarrow> OptionMenu_loop lg m rest out2))))"

definition OptionMenu_display ::
  "(nat \<Rightarrow> real) \<Rightarrow> OptionMenuItem BaseMenu \<Rightarrow> string list \<Rightarrow> string
     \<Rightarrow> (py_error + py_object) \<times> string list \<times> string" where
  "OptionMenu_display lg m inp out =
     (case BaseMenu_print lg m out of
        (Inl e, out1) \<Rightarrow> (Inl e, inp, out1)
      | (Inr u, out1) \<Rightarrow> OptionMenu_loop lg m inp out1)"

text \<open>
  \<^verbatim>\<open>BasicOptionMenu(name, items)\<close> keeps the result of the loop in its
  attribute \<open>selection\<close>.
\<close>

record 'i BasicOptionMenu = "'i BaseMenu" +
  selection :: py_object

definition BasicOptionMenu_init ::
  "(nat \<Rightarrow> real) \<Rightarrow> string option arg \<Rightarrow> (string \<times> py_object) list option arg
     \<Rightarrow> string list \<Rightarrow> string
     \<Rightarrow> (py_error + OptionMenuItem BasicOptionMenu) \<times> string list \<times> string" where
  "BasicOptionMenu_init lg name_arg items_arg inp out =
     (let nm = with_default None name_arg;
          items = with_default None items_arg;
          self = OptionMenu_init nm
      in case dict_items items of
           Inl e \<Rightarrow> (Inl e, inp, out)
         | Inr kvs \<Rightarrow>
             (case comprehension (\<lambda>(k, v). OptionMenuItem_init (Passed (Some k)) (Passed v)) kvs of
                Inl e \<Rightarrow> (Inl e, inp, out)
              | Inr new_items \<Rightarrow>
                  (let self1 = add_items self new_items
                   in case OptionMenu_display lg self1 inp out of
                        (Inl e, w) \<Rightarrow> (Inl e, w)
                      | (Inr v, w) \<Rightarrow> (Inr (BaseMenu.extend self1 \<lparr>selection = v\<rparr>), w))))"

section \<open>Example menus\<close>

text \<open>
  Concrete inputs on which the theorems below are instantiated. \<open>digits_lg\<close> is
  one possible \<open>lg\<close>: a logarithm whose integer part is exact. The option menu
  \<open>red_blue\<close> has the items Red and Blue with the values \<^verbatim>\<open>"R"\<close> and \<^verbatim>\<open>"B"\<close>;
  \<open>none_menu\<close> has one item whose stored value is \<^verbatim>\<open>None\<close>. The callback
  \<open>incrementCounter r\<close> adds one to a counter and returns \<open>r\<close>; \<open>raiseError\<close> raises
  an exception that is not an \<^verbatim>\<open>IndexError\<close>, and \<open>raiseIndexError\<close> adds one to
  the counter and then raises an \<^verbatim>\<open>IndexError\<close>. \<open>two_fields_menu\<close> is \<open>red_blue\<close>
  with a prompt template that has two replacement fields.
\<close>

definition digits_lg :: "nat \<Rightarrow> real" where
  "digits_lg n = real (length (str_nat n) - 1)"

text \<open>
  \<open>rounding_lg\<close> is another \<open>lg\<close>, one that is just below 3 at 1000, as the
  quotient of the doubles nearest to \<open>log 1000\<close> and \<open>log 10\<close> is: that quotient
  rounds to the double \<open>3 - 2\<^sup>-\<^sup>5\<^sup>1\<close>, which Python prints as
  \<^verbatim>\<open>2.9999999999999996\<close>. \<open>thousand_menu\<close> is an option menu with 1000 items.
\<close>

definition rounding_lg :: "nat \<Rightarrow> real" where
  "rounding_lg n = (if n = 1000 then 3 - 1 / 2 ^ 51 else digits_lg n)"

definition red_item :: OptionMenuItem where
  "red_item = \<lparr>display = Some ''Red'', value = PyStr ''R''\<rparr>"

definition blue_item :: OptionMenuItem where
  "blue_item = \<lparr>display = Some ''Blue'', value = PyStr ''B''\<rparr>"

definition red_blue :: "OptionMenuItem BaseMenu" where
  "red_blue = add_items (OptionMenu_init None) [red_item, blue_item]"

definition thousand_menu :: "OptionMenuItem BaseMenu" where
  "thousand_menu = add_items (OptionMenu_init None) (replicate 1000 red_item)"

definition none_item :: OptionMenuItem where
  "none_item = \<lparr>display = Some ''Nothing'', value = PyNone\<rparr>"

definition none_menu :: "OptionMenuItem BaseMenu" where
  "none_menu = add_items (OptionMenu_init None) [none_item]"

definition empty_menu :: "OptionMenuItem BaseMenu" where
  "empty_menu = OptionMenu_init None"

definition incrementCounter :: "'r \<Rightarrow> nat \<Rightarrow> (py_error + 'r) \<times> nat" where
  "incrementCounter r c = (Inr r, c + 1)"

definition raiseError :: "nat \<Rightarrow> (py_error + unit) \<times> nat" where
  "raiseError c = (Inl (UserError ''RuntimeError''), c)"

definition counter_menu :: "'r \<Rightarrow> (nat, 'r) MenuItem BaseMenu" where
  "counter_menu r =
     add_items (Menu_init None)
       [\<lparr>display = Some ''A'', callback = incrementCounter r\<rparr>,
        \<lparr>display = Some ''B'', callback = incrementCounter r\<rparr>]"

definition raiseIndexError :: "nat \<Rightarrow> (py_error + unit) \<times> nat" where
  "raiseIndexError c = (Inl IndexError, c + 1)"

definition index_error_menu :: "(nat, unit) MenuItem BaseMenu" where
  "index_error_menu =
     add_items (Menu_init None)
       [\<lparr>display = Some ''A'', callback = raiseIndexError\<rparr>,
        \<lparr>display = Some ''B'', callback = incrementCounter ()\<rparr>]"

definition two_fields_menu :: "OptionMenuItem BaseMenu" where
  "two_fields_menu = red_blue\<lparr>selection_text := ''{} {}''\<rparr>"

definition raising_item :: "(nat, unit) MenuItem" where
  "raising_item = \<lparr>display = Some ''B'', callback = raiseError\<rparr>"

definition raising_menu :: "(nat, unit) MenuItem BaseMenu" where
  "raising_menu =
     add_items (Menu_init None)
       [\<lparr>display = Some ''A'', callback = incrementCounter ()\<rparr>, raising_item]"

section \<open>Basic facts\<close>

subsection \<open>Indexing and \<open>get_selection\<close>\<close>

lemma get_selection_py_index:
  "get_selection m sel = py_index (menu_items m) (sel - 1)"
  by (simp add: get_selection_def py_index_def is_IndexError_def)

lemma get_selection_in_range:
  "1 \<le> i \<Longrightarrow> i \<le> int (len m) \<Longrightarrow> get_selection m i = Inr (menu_items m ! nat (i - 1))"
  by (simp add: get_selection_py_index py_index_def len_def)

lemma get_selection_above:
  "int (len m) < i \<Longrightarrow> get_selection m i = Inl IndexError"
  by (simp add: get_selection_py_index py_index_def len_def)

lemma get_selection_below:
  "i < 1 \<Longrightarrow> get_selection m i =
     (if - int (len m) < i then Inr (menu_items m ! nat (i - 1 + int (len m)))
      else Inl IndexError)"
  by (simp add: get_selection_py_index py_index_def len_def)

subsection \<open>Adding items\<close>

lemma menu_items_add_items [simp]: "menu_items (add_items m items) = menu_items m @ items"
  by (induction items arbitrary: m) (simp_all add: add_items_def add_item_def)

lemma add_items_fields [simp]:
  "exit_text (add_items m items) = exit_text m"
  "invalid_option_text (add_items m items) = invalid_option_text m"
  "selection_text (add_items m items) = selection_text m"
  "name (add_items m items) = name m"
  "display_exit (add_items m items) = display_exit m"
  by (induction items arbitrary: m) (simp_all add: add_items_def add_item_def)

lemma len_add_items: "len (add_items m items) = len m + length items"
  by (simp add: len_def)

subsection \<open>Decimal digits\<close>

text \<open>
  \<open>str_nat n\<close> has as many characters as \<open>n\<close> has decimal digits: one more than
  the integer part of the logarithm to base 10.
\<close>

lemma length_str_nat_pos: "0 < length (str_nat n)"
  by (subst str_nat.simps) simp

lemma length_str_nat_step:
  "10 \<le> n \<Longrightarrow> length (str_nat n) = Suc (length (str_nat (n div 10)))"
  by (subst str_nat.simps) simp

lemma str_nat_bounds:
  "0 < n \<Longrightarrow> 10 ^ (length (str_nat n) - 1) \<le> n \<and> n < 10 ^ length (str_nat n)"
proof (induction n rule: str_nat.induct)
  case (1 n)
  show ?case
  proof (cases "n < 10")
    case True
    then have "length (str_nat n) = 1" by (subst str_nat.simps) simp
    with True 1(2) show ?thesis by simp
  next
    case False
    let ?k = "length (str_nat (n div 10))"
    from False have pos: "0 < n div 10" by simp
    have len: "length (str_nat n) = Suc ?k"
      using False by (simp add: length_str_nat_step)
    from 1(1) [OF False pos]
    have lo: "10 ^ (?k - 1) \<le> n div 10" and hi: "n div 10 < 10 ^ ?k" by simp_all
    have "10 ^ ?k = 10 * 10 ^ (?k - 1)"
      using length_str_nat_pos [of "n div 10"] by (cases ?k) simp_all
    also have "\<dots> \<le> 10 * (n div 10)" using lo by simp
    also have "\<dots> \<le> n" by simp
    finally have a: "10 ^ ?k \<le> n" .
    have "n < 10 * (n div 10 + 1)" by (simp add: dividend_less_times_div)
    also have "\<dots> \<le> 10 * 10 ^ ?k" using hi by simp
    finally have b: "n < 10 ^ Suc ?k" by simp
    show ?thesis using a b by (simp add: len)
  qed
qed

lemma floor_log10_str_nat:
  assumes "0 < n"
  shows "\<lfloor>log 10 (real n)\<rfloor> = int (length (str_nat n)) - 1"
proof -
  have "10 ^ (length (str_nat n) - 1) \<le> n" "n < 10 ^ (length (str_nat n) - 1 + 1)"
    using str_nat_bounds [OF assms] length_str_nat_pos [of n] by simp_all
  then have "\<lfloor>log (real 10) (real n)\<rfloor> = int (length (str_nat n) - 1)"
    by (intro floor_log_nat_eq_if) simp_all
  then show ?thesis using length_str_nat_pos [of n] by (simp add: of_nat_diff)
qed

text \<open>
  Where the double that \<^verbatim>\<open>math.log\<close> returns has the integer part of the exact
  logarithm, the width is the number of digits of the number of items.
\<close>

lemma width_exact:
  assumes "0 < n" and "\<lfloor>lg n\<rfloor> = \<lfloor>log 10 (real n)\<rfloor>"
  shows "math_floor (lg n) + 1 = int (length (str_nat n))"
  using assms floor_log10_str_nat [OF assms(1)] by (simp add: math_floor_def)

subsection \<open>The prompt and the rendering\<close>

lemma str_format_default:
  "str_format False default_selection_text n =
     Inr (''Please select an option [0-'' @ str_nat n @ '']: '')"
  by (simp add: default_selection_text_def)

lemma prompt_text_default:
  "prompt_text (add_items (BaseMenu_init nm b) items) =
     Inr (''Please select an option [0-'' @ str_nat (length items) @ '']: '')"
  by (simp add: prompt_text_def BaseMenu_init_def str_format_default len_def)

lemma str_nat_2: "str_nat 2 = ''2''"
  by (simp add: str_nat.simps digit_char_def)

lemma BaseMenu_print_ok:
  "menu_items m \<noteq> [] \<Longrightarrow> fst (BaseMenu_print lg m out) = Inr ()"
  by (simp add: BaseMenu_print_def math_log10_def len_def Let_def)

lemma BaseMenu_print_empty:
  "menu_items m = [] \<Longrightarrow> BaseMenu_print lg m out = (Inl (ValueError MathDomain), out)"
  by (simp add: BaseMenu_print_def math_log10_def len_def)

lemma BaseMenu_print_nonempty:
  "menu_items m \<noteq> [] \<Longrightarrow>
   BaseMenu_print lg m out =
     (Inr (),
      (let width = math_floor (lg (len m)) + 1;
           out2 = (case name m of None \<Rightarrow> py_print [newline] out
                   | Some nm \<Rightarrow> py_print nm (py_print [newline] out));
           out3 = print_items width 1 (menu_items m) out2
       in if display_exit m
          then py_print (format_width 0 width @ '': '' @ exit_text m) out3
          else out3))"
  by (simp add: BaseMenu_print_def math_log10_def len_def Let_def)

text \<open>
  What \<^verbatim>\<open>print\<close> writes does not depend on what was written before: the
  rendering of a menu is \<open>snd (BaseMenu_print lg m [])\<close>, and \<^verbatim>\<open>print\<close> appends
  it to the output.
\<close>

lemma print_items_append:
  "print_items w i items (a @ b) = a @ print_items w i items b"
  by (induction items arbitrary: i b) (simp_all add: py_print_def)

lemma BaseMenu_print_append:
  "snd (BaseMenu_print lg m out) = out @ snd (BaseMenu_print lg m [])"
proof (cases "menu_items m = []")
  case True
  then show ?thesis by (simp add: BaseMenu_print_empty)
next
  case False
  have "\<And>w t. print_items w 1 (menu_items m) (out @ t) = out @ print_items w 1 (menu_items m) t"
    by (rule print_items_append)
  then show ?thesis
    unfolding BaseMenu_print_nonempty [OF False] Let_def
    by (simp add: py_print_def split: option.splits)
qed

lemma BaseMenu_print_result:
  assumes "menu_items m \<noteq> []" and "R = snd (BaseMenu_print lg m [])"
  shows "BaseMenu_print lg m out = (Inr (), out @ R)"
  using BaseMenu_print_ok [OF assms(1), of lg out] BaseMenu_print_append [of lg m out] assms(2)
  by (cases "BaseMenu_print lg m out") simp

subsection \<open>One round of the loops\<close>

text \<open>
  A round in which the lookup raises: the number is not 0 and
  \<^verbatim>\<open>get_selection\<close> refuses it. The handler writes the invalid-option text, the
  menu is rendered again and the loop goes on with the lines that are left.
\<close>

lemma Menu_loop_rejected:
  assumes "prompt_text m = Inr p" "py_int line = Inr sel" "sel \<noteq> 0"
    "get_selection m sel = Inl IndexError" "menu_items m \<noteq> []"
  shows "Menu_loop lg m (line # rest) out s =
         Menu_loop lg m rest
           (out @ p @ invalid_option_text m @ [newline] @ snd (BaseMenu_print lg m [])) s"
proof -
  define R where "R = snd (BaseMenu_print lg m [])"
  show ?thesis
    unfolding R_def [symmetric] using assms(1,2,3,4)
    by (simp add: Menu_dispatch_def Menu_try_def is_IndexError_def
          BaseMenu_print_result [OF assms(5) R_def] py_print_def)
qed

lemma OptionMenu_loop_rejected:
  assumes "prompt_text m = Inr p" "py_int line = Inr sel" "sel \<noteq> 0"
    "get_selection m sel = Inl IndexError" "menu_items m \<noteq> []"
  shows "OptionMenu_loop lg m (line # rest) out =
         OptionMenu_loop lg m rest
           (out @ p @ invalid_option_text m @ [newline] @ snd (BaseMenu_print lg m []))"
proof -
  define R where "R = snd (BaseMenu_print lg m [])"
  show ?thesis
    unfolding R_def [symmetric] using assms(1,2,3,4)
    by (simp add: OptionMenu_dispatch_def is_IndexError_def
          BaseMenu_print_result [OF assms(5) R_def] py_print_def)
qed

lemma Menu_loop_above:
  assumes "prompt_text m = Inr p" "py_int line = Inr sel" "int (len m) < sel"
    "menu_items m \<noteq> []"
  shows "Menu_loop lg m (line # rest) out s =
         Menu_loop lg m rest
           (out @ p @ invalid_option_text m @ [newline] @ snd (BaseMenu_print lg m [])) s"
proof -
  have "sel \<noteq> 0" using assms(3) by simp
  then show ?thesis
    by (rule Menu_loop_rejected [OF assms(1,2) _ get_selection_above [OF assms(3)] assms(4)])
qed

lemma OptionMenu_loop_above:
  assumes "prompt_text m = Inr p" "py_int line = Inr sel" "int (len m) < sel"
    "menu_items m \<noteq> []"
  shows "OptionMenu_loop lg m (line # rest) out =
         OptionMenu_loop lg m rest
           (out @ p @ invalid_option_text m @ [newline] @ snd (BaseMenu_print lg m []))"
proof -
  have "sel \<noteq> 0" using assms(3) by simp
  then show ?thesis
    by (rule OptionMenu_loop_rejected
          [OF assms(1,2) _ get_selection_above [OF assms(3)] assms(4)])
qed

text \<open>
  Any number of such rounds: each adds the prompt, the invalid-option text and
  the rendering to the output.
\<close>

lemma OptionMenu_loop_rejected_lines:
  assumes "prompt_text m = Inr p" and "menu_items m \<noteq> []"
    and "\<forall>l\<in>set pre. \<exists>sel. py_int l = Inr sel \<and> sel \<noteq> 0
           \<and> get_selection m sel = Inl IndexError"
  shows "OptionMenu_loop lg m (pre @ inp) out =
         OptionMenu_loop lg m inp
           (out @ concat (replicate (length pre)
                    (p @ invalid_option_text m @ [newline] @ snd (BaseMenu_print lg m []))))"
  using assms(3)
proof (induction pre arbitrary: out)
  case Nil
  show ?case by simp
next
  case (Cons l pre)
  let ?B = "p @ invalid_option_text m @ [newline] @ snd (BaseMenu_print lg m [])"
  from Cons.prems obtain sel where
    sel: "py_int l = Inr sel" "sel \<noteq> 0" "get_selection m sel = Inl IndexError"
    by auto
  have "OptionMenu_loop lg m ((l # pre) @ inp) out =
        OptionMenu_loop lg m (pre @ inp) (out @ ?B)"
    using OptionMenu_loop_rejected [OF assms(1) sel assms(2), of lg "pre @ inp" out]
    by simp
  also have "\<dots> = OptionMenu_loop lg m inp
      ((out @ ?B) @ concat (replicate (length pre) ?B))"
    using Cons.prems by (intro Cons.IH) simp
  finally show ?case by simp
qed

text \<open>
  A round in which the callback of a valid selection raises. An exception that
  is not an instance of \<^verbatim>\<open>IndexError\<close> ends the loop. An instance of
  \<^verbatim>\<open>IndexError\<close> is caught by the handler that is there for the lookup: the
  invalid-option text is written and the loop goes on, with the state as the
  callback left it.
\<close>

lemma Menu_loop_callback_raises:
  assumes "prompt_text m = Inr p" "py_int line = Inr sel" "sel \<noteq> 0"
    "get_selection m sel = Inr item" "callback item s = (Inl e, s1)" "\<not> is_IndexError e"
  shows "Menu_loop lg m (line # rest) out s = (Inl e, rest, out @ p, s1)"
  using assms by (simp add: Menu_dispatch_def Menu_try_def)

lemma Menu_loop_callback_IndexError:
  assumes "prompt_text m = Inr p" "py_int line = Inr sel" "sel \<noteq> 0"
    "get_selection m sel = Inr item" "callback item s = (Inl e, s1)" "is_IndexError e"
  shows "Menu_loop lg m (line # rest) out s =
         Menu_loop lg m rest
           (out @ p @ invalid_option_text m @ [newline] @ snd (BaseMenu_print lg m [])) s1"
proof -
  define R where "R = snd (BaseMenu_print lg m [])"
  have ne: "menu_items m \<noteq> []"
    using assms(4) by (auto simp: get_selection_py_index py_index_def split: if_splits)
  show ?thesis
    unfolding R_def [symmetric] using assms
    by (simp add: Menu_dispatch_def Menu_try_def
          BaseMenu_print_result [OF ne R_def] py_print_def)
qed

lemma Menu_loop_valid:
  assumes "prompt_text m = Inr p" "py_int line = Inr i" "1 \<le> i" "i \<le> int (len m)"
    "callback (menu_items m ! nat (i - 1)) s = (Inr r, s1)"
  shows "Menu_loop lg m (line # rest) out s =
         Menu_loop lg m rest (out @ p @ snd (BaseMenu_print lg m [])) s1"
proof -
  define R where "R = snd (BaseMenu_print lg m [])"
  have ne: "menu_items m \<noteq> []" using assms(3,4) by (auto simp: len_def)
  have "i \<noteq> 0" using assms(3) by simp
  then show ?thesis
    unfolding R_def [symmetric] using assms
    by (simp add: Menu_dispatch_def Menu_try_def get_selection_in_range
          BaseMenu_print_result [OF ne R_def])
qed

lemma Menu_loop_exit:
  "prompt_text m = Inr p \<Longrightarrow> py_int line = Inr 0 \<Longrightarrow>
   Menu_loop lg m (line # rest) out s = (Inr (), rest, out @ p, s)"
  by simp

lemma OptionMenu_loop_exit:
  "prompt_text m = Inr p \<Longrightarrow> py_int line = Inr 0 \<Longrightarrow>
   OptionMenu_loop lg m (line # rest) out = (Inr PyNone, rest, out @ p)"
  by simp

lemma OptionMenu_loop_valid:
  assumes "prompt_text m = Inr p" "py_int line = Inr i" "1 \<le> i" "i \<le> int (len m)"
  shows "OptionMenu_loop lg m (line # rest) out =
         (Inr (value (menu_items m ! nat (i - 1))), rest, out @ p)"
proof -
  have "i \<noteq> 0" using assms(3) by simp
  then show ?thesis
    using assms by (simp add: OptionMenu_dispatch_def get_selection_in_range)
qed

lemma Menu_display_nonempty:
  assumes "menu_items m \<noteq> []"
  shows "Menu_display lg m inp out s =
         Menu_loop lg m inp (out @ snd (BaseMenu_print lg m [])) s"
  by (simp add: Menu_display_def BaseMenu_print_result [OF assms refl, of lg out])

lemma OptionMenu_display_nonempty:
  assumes "menu_items m \<noteq> []"
  shows "OptionMenu_display lg m inp out =
         OptionMenu_loop lg m inp (out @ snd (BaseMenu_print lg m []))"
  by (simp add: OptionMenu_display_def BaseMenu_print_result [OF assms refl, of lg out])

subsection \<open>Every round starts with the prompt\<close>

text \<open>
  Whatever the lines are, the first thing either loop writes is the prompt, and
  it only ever appends to the output. The proofs follow the rounds of the loop
  by induction on the lines.
\<close>

lemma Menu_dispatch_output:
  "\<exists>t. fst (snd (Menu_dispatch m sel out s)) = out @ t"
  by (auto simp: Menu_dispatch_def py_print_def split: prod.splits sum.splits)

lemma OptionMenu_dispatch_output:
  "\<exists>t. snd (OptionMenu_dispatch m sel out) = out @ t"
  by (auto simp: OptionMenu_dispatch_def py_print_def split: sum.splits)

lemma Menu_loop_prompts_first:
  assumes "prompt_text m = Inr p"
  shows "\<exists>t. fst (snd (snd (Menu_loop lg m inp out s))) = out @ p @ t"
proof (induction inp arbitrary: out s)
  case Nil
  with assms show ?case by simp
next
  case (Cons line rest)
  show ?case
  proof (cases "py_int line")
    case (Inl e)
    with assms show ?thesis by simp
  next
    case sel: (Inr sel)
    show ?thesis
    proof (cases "sel = 0")
      case True
      with assms sel show ?thesis by simp
    next
      case False
      obtain r out1 s1 where d: "Menu_dispatch m sel (out @ p) s = (r, out1, s1)"
        by (cases "Menu_dispatch m sel (out @ p) s") auto
      obtain t1 where t1: "out1 = (out @ p) @ t1"
        using Menu_dispatch_output [of m sel "out @ p" s] d by auto
      show ?thesis
      proof (cases r)
        case (Inl e)
        with assms sel False d t1 show ?thesis by simp
      next
        case (Inr u)
        obtain r2 out2 where pr: "BaseMenu_print lg m out1 = (r2, out2)"
          by (cases "BaseMenu_print lg m out1") auto
        have o2: "out2 = out1 @ snd (BaseMenu_print lg m [])"
          using BaseMenu_print_append [of lg m out1] pr by simp
        show ?thesis
        proof (cases r2)
          case (Inl e)
          with assms sel False d t1 Inr pr o2 show ?thesis by simp
        next
          case r2: (Inr u2)
          obtain t where "fst (snd (snd (Menu_loop lg m rest out2 s1))) = out2 @ p @ t"
            using Cons.IH [of out2 s1] by blast
          with assms sel False d t1 Inr pr o2 r2 show ?thesis by simp
        qed
      qed
    qed
  qed
qed

lemma OptionMenu_loop_prompts_first:
  assumes "prompt_text m = Inr p"
  shows "\<exists>t. snd (snd (OptionMenu_loop lg m inp out)) = out @ p @ t"
proof (induction inp arbitrary: out)
  case Nil
  with assms show ?case by simp
next
  case (Cons line rest)
  show ?case
  proof (cases "py_int line")
    case (Inl e)
    with assms show ?thesis by simp
  next
    case sel: (Inr sel)
    show ?thesis
    proof (cases "sel = 0")
      case True
      with assms sel show ?thesis by simp
    next
      case False
      obtain r out1 where d: "OptionMenu_dispatch m sel (out @ p) = (r, out1)"
        by (cases "OptionMenu_dispatch m sel (out @ p)") auto
      obtain t1 where t1: "out1 = (out @ p) @ t1"
        using OptionMenu_dispatch_output [of m sel "out @ p"] d by auto
      show ?thesis
      proof (cases r)
        case (Inl e)
        with assms sel False d t1 show ?thesis by simp
      next
        case (Inr v)
        show ?thesis
        proof (cases v)
          case (Some x)
          with assms sel False d t1 Inr show ?thesis by simp
        next
          case None
          obtain r2 out2 where pr: "BaseMenu_print lg m out1 = (r2, out2)"
            by (cases "BaseMenu_print lg m out1") auto
          have o2: "out2 = out1 @ snd (BaseMenu_print lg m [])"
            using BaseMenu_print_append [of lg m out1] pr by simp
          show ?thesis
          proof (cases r2)
            case (Inl e)
            with assms sel False d t1 Inr None pr o2 show ?thesis by simp
          next
            case r2: (Inr u2)
            obtain t where "snd (snd (OptionMenu_loop lg m rest out2)) = out2 @ p @ t"
              using Cons.IH [of out2] by blast
            with assms sel False d t1 Inr None pr o2 r2 show ?thesis by simp
          qed
        qed
      qed
    qed
  qed
qed

subsection \<open>The example menus\<close>

lemma py_int_0: "py_int ''0'' = Inr 0"
  by code_simp

lemma py_int_1: "py_int ''1'' = Inr 1"
  by code_simp

lemma items_red_blue: "menu_items red_blue = [red_item, blue_item]"
  by (simp add: red_blue_def OptionMenu_init_def BaseMenu_init_def)

lemma len_red_blue: "len red_blue = 2"
  by (simp add: len_def items_red_blue)

lemma counter_menu_items:
  "menu_items (counter_menu r) =
     [\<lparr>display = Some ''A'', callback = incrementCounter r\<rparr>,
      \<lparr>display = Some ''B'', callback = incrementCounter r\<rparr>]"
  by (simp add: counter_menu_def Menu_init_def BaseMenu_init_def)

lemma counter_menu_prompt:
  "prompt_text (counter_menu r) = Inr ''Please select an option [0-2]: ''"
proof -
  have "length [\<lparr>display = Some ''A'', callback = incrementCounter r\<rparr>,
                \<lparr>display = Some ''B'', callback = incrementCounter r\<rparr>] = 2"
    by simp
  then show ?thesis
    unfolding counter_menu_def Menu_init_def prompt_text_default
    by (simp only: str_nat_2) simp
qed

section \<open>Selection by number\<close>

text \<open>
  Claim C1. \<^verbatim>\<open>get_selection\<close> is to return the \<open>i\<close>-th item for \<open>i\<close> from 1 to the
  number of items and to raise \<^verbatim>\<open>IndexError\<close> for every other number, 0 and
  the negative numbers included. The code reads \<^verbatim>\<open>menu_items[selection - 1]\<close>,
  and a negative index counts from the end of the list: on the menu with the
  items Red and Blue the selection 0 gives the last item, Blue, and the
  selection -1 gives Red; only from -2 downwards is the exception raised.
\<close>

theorem get_selection_wraps_around:
  "get_selection red_blue 0 = Inr blue_item
   \<and> get_selection red_blue (- 1) = Inr red_item
   \<and> get_selection red_blue (- 2) = Inl IndexError
   \<and> get_selection red_blue 1 = Inr red_item
   \<and> get_selection red_blue 2 = Inr blue_item
   \<and> get_selection red_blue 3 = Inl IndexError"
  by (simp add: get_selection_py_index py_index_def items_red_blue)

section \<open>Leaving the option menu with 0\<close>

text \<open>
  Claim C2, as the code has it. On every option menu with at least one item and
  a prompt template that formats, a line that reads as 0 ends the loop, whether
  it is the first line or comes after any number of lines that
  \<^verbatim>\<open>get_selection\<close> refuses: the rest of the input is left unread, the output is
  the rendering, then for each refused line the prompt, the invalid-option text
  and the rendering, and then the prompt; the result is \<^verbatim>\<open>None\<close>, since the
  function ends without a \<^verbatim>\<open>return\<close> statement. Where \<open>display_exit\<close> is false,
  as it is on every menu that \<^verbatim>\<open>OptionMenu\<close> constructs, the rendering ends with
  the last item: no exit line is written. The default template of such a menu
  formats.
\<close>

theorem exit_sentinel_returns_None:
  assumes "menu_items m \<noteq> []" and "prompt_text m = Inr p"
    and "\<forall>l\<in>set pre. \<exists>sel. py_int l = Inr sel \<and> sel \<noteq> 0
           \<and> get_selection m sel = Inl IndexError"
    and "py_int line = Inr 0"
  shows "OptionMenu_display lg m (pre @ line # rest) out =
           (Inr PyNone, rest,
            out @ snd (BaseMenu_print lg m [])
              @ concat (replicate (length pre)
                  (p @ invalid_option_text m @ [newline] @ snd (BaseMenu_print lg m [])))
              @ p)
       \<and> (\<not> display_exit m \<longrightarrow>
            snd (BaseMenu_print lg m []) =
              print_items (math_floor (lg (len m)) + 1) 1 (menu_items m)
                (case name m of None \<Rightarrow> py_print [newline] []
                 | Some title \<Rightarrow> py_print title (py_print [newline] [])))
       \<and> \<not> display_exit (add_items (OptionMenu_init nm) items)
       \<and> prompt_text (add_items (OptionMenu_init nm) items) =
            Inr (''Please select an option [0-'' @ str_nat (length items) @ '']: '')"
proof -
  have a: "OptionMenu_display lg m (pre @ line # rest) out =
           (Inr PyNone, rest,
            out @ snd (BaseMenu_print lg m [])
              @ concat (replicate (length pre)
                  (p @ invalid_option_text m @ [newline] @ snd (BaseMenu_print lg m [])))
              @ p)"
    unfolding OptionMenu_display_nonempty [OF assms(1)]
      OptionMenu_loop_rejected_lines [OF assms(2,1,3)]
      OptionMenu_loop_exit [OF assms(2,4)]
    by simp
  have b: "\<not> display_exit m \<longrightarrow>
            snd (BaseMenu_print lg m []) =
              print_items (math_floor (lg (len m)) + 1) 1 (menu_items m)
                (case name m of None \<Rightarrow> py_print [newline] []
                 | Some title \<Rightarrow> py_print title (py_print [newline] []))"
    by (subst BaseMenu_print_nonempty [OF assms(1)]) (simp add: Let_def)
  have c: "\<not> display_exit (add_items (OptionMenu_init nm) items)"
    by (simp add: OptionMenu_init_def BaseMenu_init_def)
  have d: "prompt_text (add_items (OptionMenu_init nm) items) =
            Inr (''Please select an option [0-'' @ str_nat (length items) @ '']: '')"
    unfolding OptionMenu_init_def by (rule prompt_text_default)
  from a b c d show ?thesis by blast
qed

theorem exit_sentinel_returns_None_witness:
  "menu_items red_blue \<noteq> []
   \<and> prompt_text red_blue = Inr ''Please select an option [0-2]: ''
   \<and> py_int ''5'' = Inr 5 \<and> (5::int) \<noteq> 0 \<and> get_selection red_blue 5 = Inl IndexError
   \<and> py_int ''0'' = Inr 0
   \<and> \<not> display_exit red_blue
   \<and> OptionMenu_display digits_lg red_blue [''0'', ''1''] [] =
       (Inr PyNone, [''1''],
        [CHR 0x0A, CHR 0x0A] @ ''1: Red'' @ [CHR 0x0A] @ ''2: Blue'' @ [CHR 0x0A]
          @ ''Please select an option [0-2]: '')
   \<and> OptionMenu_display digits_lg red_blue [''5'', ''0'', ''1''] [] =
       (Inr PyNone, [''1''],
        [CHR 0x0A, CHR 0x0A] @ ''1: Red'' @ [CHR 0x0A] @ ''2: Blue'' @ [CHR 0x0A]
          @ ''Please select an option [0-2]: Invalid option'' @ [CHR 0x0A]
          @ [CHR 0x0A, CHR 0x0A] @ ''1: Red'' @ [CHR 0x0A] @ ''2: Blue'' @ [CHR 0x0A]
          @ ''Please select an option [0-2]: '')
   \<and> snd (BaseMenu_print digits_lg red_blue []) =
       print_items (math_floor (digits_lg (len red_blue)) + 1) 1 (menu_items red_blue)
         (case name red_blue of None \<Rightarrow> py_print [newline] []
          | Some title \<Rightarrow> py_print title (py_print [newline] []))"
proof -
  let ?p = "''Please select an option [0-2]: ''"
  have h1: "menu_items red_blue \<noteq> []" by (simp add: items_red_blue)
  have h2: "prompt_text red_blue = Inr ?p" by code_simp
  have g1: "py_int ''5'' = Inr 5" by code_simp
  have g2: "(5::int) \<noteq> 0" by simp
  have g3: "get_selection red_blue 5 = Inl IndexError"
    by (simp add: get_selection_above len_red_blue)
  have h3a: "\<forall>l\<in>set []. \<exists>sel. py_int l = Inr sel \<and> sel \<noteq> 0
               \<and> get_selection red_blue sel = Inl IndexError"
    by simp
  have h3b: "\<forall>l\<in>set [''5'']. \<exists>sel. py_int l = Inr sel \<and> sel \<noteq> 0
               \<and> get_selection red_blue sel = Inl IndexError"
    using g1 g2 g3 by simp
  have h4: "py_int ''0'' = Inr 0" by (rule py_int_0)
  have de: "\<not> display_exit red_blue"
    by (simp add: red_blue_def OptionMenu_init_def BaseMenu_init_def)
  have r: "snd (BaseMenu_print digits_lg red_blue []) =
      [CHR 0x0A, CHR 0x0A] @ ''1: Red'' @ [CHR 0x0A] @ ''2: Blue'' @ [CHR 0x0A]"
    by code_simp
  have iv: "invalid_option_text red_blue = ''Invalid option''" by code_simp
  note A = exit_sentinel_returns_None [OF h1 h2 h3a h4, where lg = digits_lg
      and rest = "[''1'']" and out = "[]"]
  note B = exit_sentinel_returns_None [OF h1 h2 h3b h4, where lg = digits_lg
      and rest = "[''1'']" and out = "[]"]
  have a: "OptionMenu_display digits_lg red_blue [''0'', ''1''] [] =
       (Inr PyNone, [''1''],
        [CHR 0x0A, CHR 0x0A] @ ''1: Red'' @ [CHR 0x0A] @ ''2: Blue'' @ [CHR 0x0A] @ ?p)"
    using A by (simp add: r)
  have b: "OptionMenu_display digits_lg red_blue [''5'', ''0'', ''1''] [] =
       (Inr PyNone, [''1''],
        [CHR 0x0A, CHR 0x0A] @ ''1: Red'' @ [CHR 0x0A] @ ''2: Blue'' @ [CHR 0x0A]
          @ ''Please select an option [0-2]: Invalid option'' @ [CHR 0x0A]
          @ [CHR 0x0A, CHR 0x0A] @ ''1: Red'' @ [CHR 0x0A] @ ''2: Blue'' @ [CHR 0x0A] @ ?p)"
    using B by (simp add: r iv newline_def)
  have c: "snd (BaseMenu_print digits_lg red_blue []) =
       print_items (math_floor (digits_lg (len red_blue)) + 1) 1 (menu_items red_blue)
         (case name red_blue of None \<Rightarrow> py_print [newline] []
          | Some title \<Rightarrow> py_print title (py_print [newline] []))"
    using A de by blast
  from h1 h2 g1 g2 g3 h4 de a b c show ?thesis by blast
qed

text \<open>
  Claim C2 as stated fails. The result of leaving with 0 is not set apart from
  the stored values: on \<open>none_menu\<close>, whose only item stores \<^verbatim>\<open>None\<close>, the input
  0 and the input 1 give the same result. And the loop is not left with 0 on
  every menu: on the menu without items the rendering raises before any line is
  read, and on \<open>two_fields_menu\<close> the formatting of the prompt raises
  \<^verbatim>\<open>IndexError\<close> before the line is read.
\<close>

theorem exit_result_collides_with_stored_None:
  "fst (OptionMenu_display digits_lg none_menu [''0''] []) = Inr PyNone
   \<and> fst (OptionMenu_display digits_lg none_menu [''1''] []) = Inr PyNone
   \<and> OptionMenu_display digits_lg empty_menu [''0''] [] =
       (Inl (ValueError MathDomain), [''0''], [])
   \<and> OptionMenu_display digits_lg two_fields_menu [''0''] [] =
       (Inl IndexError, [''0''],
        [CHR 0x0A, CHR 0x0A] @ ''1: Red'' @ [CHR 0x0A] @ ''2: Blue'' @ [CHR 0x0A])"
  by code_simp

section \<open>Constructing items\<close>

text \<open>
  Claim C3, as the code has it. The constructors of \<^verbatim>\<open>MenuItem\<close> and
  \<^verbatim>\<open>OptionMenuItem\<close> check nothing: for every display that is passed, \<^verbatim>\<open>None\<close>
  included, they build the record that holds the display and the callback, or
  the display and the value. Only a call that omits the display fails, with the
  \<^verbatim>\<open>TypeError\<close> of the call itself.
\<close>

theorem item_constructors_store_arguments:
  "MenuItem_init (Passed d) (Passed cb) = Inr \<lparr>display = d, callback = cb\<rparr>
   \<and> OptionMenuItem_init (Passed d) (Passed v) = Inr \<lparr>display = d, value = v\<rparr>
   \<and> MenuItem_init Omitted cb_arg = Inl TypeError
   \<and> OptionMenuItem_init Omitted value_arg = Inl TypeError"
  by (simp add: MenuItem_init_def OptionMenuItem_init_def required_def)

text \<open>
  Claim C3 as stated fails: a display of \<^verbatim>\<open>None\<close> is accepted by both
  constructors.
\<close>

theorem None_display_is_accepted:
  "MenuItem_init (Passed None) (Passed raiseError) = Inr \<lparr>display = None, callback = raiseError\<rparr>
   \<and> OptionMenuItem_init (Passed None) (Passed PyNone) = Inr \<lparr>display = None, value = PyNone\<rparr>"
  by (simp add: MenuItem_init_def OptionMenuItem_init_def required_def)

section \<open>Rendering a menu without items\<close>

text \<open>
  Claim C4, as the code has it. On a menu without items \<^verbatim>\<open>print\<close> fails before
  it writes anything, and the failure is the \<^verbatim>\<open>ValueError\<close> that
  \<^verbatim>\<open>math.log(0, 10)\<close> raises: the logarithm is computed, and no check of the
  number of items precedes it.
\<close>

theorem print_without_items_raises:
  assumes "len m = 0"
  shows "BaseMenu_print lg m out = (Inl (ValueError MathDomain), out)
         \<and> math_log10 lg (len m) = Inl (ValueError MathDomain)"
  using assms by (simp add: BaseMenu_print_def math_log10_def)

theorem print_without_items_raises_witness:
  "len empty_menu = 0
   \<and> BaseMenu_print digits_lg empty_menu ''abc'' = (Inl (ValueError MathDomain), ''abc'')
   \<and> math_log10 digits_lg (len empty_menu) = Inl (ValueError MathDomain)"
proof -
  have h: "len empty_menu = 0"
    by (simp add: len_def empty_menu_def OptionMenu_init_def BaseMenu_init_def)
  show ?thesis
    using print_without_items_raises [OF h, of digits_lg "''abc''"] h by simp
qed

text \<open>
  Claim C4 as stated fails: the failure on the menu without items is the one of
  the logarithm of 0, not that of a check made in its place.
\<close>

theorem empty_menu_reaches_the_logarithm:
  "fst (BaseMenu_print digits_lg empty_menu []) = Inl (ValueError MathDomain)
   \<and> math_log10 digits_lg (len empty_menu) = Inl (ValueError MathDomain)
   \<and> len empty_menu = 0"
  by code_simp

section \<open>The width of the index column\<close>

text \<open>
  Claim C7. The width that \<^verbatim>\<open>print\<close> uses is \<open>\<lfloor>lg n\<rfloor> + 1\<close> for \<open>n\<close> items, where
  \<open>lg n\<close> is the double that \<^verbatim>\<open>math.log(n, 10)\<close> returns. By \<open>width_exact\<close> it is
  the number of decimal digits of \<open>n\<close> where that double has the integer part of
  the exact logarithm. For 1000 items the double is below 3: the width is then
  3, the index 1 is padded to three columns, and the index 1000, which has four
  digits, takes four.
\<close>

theorem width_three_for_1000_items:
  assumes "len m = 1000" and "2 \<le> lg 1000" and "lg 1000 < 3"
  shows "fst (BaseMenu_print lg m out) = Inr ()
       \<and> snd (BaseMenu_print lg m out) =
           (let out2 = (case name m of None \<Rightarrow> py_print [newline] out
                        | Some nm \<Rightarrow> py_print nm (py_print [newline] out));
                out3 = print_items 3 1 (menu_items m) out2
            in if display_exit m
               then py_print (format_width 0 3 @ '': '' @ exit_text m) out3
               else out3)
       \<and> math_floor (lg (len m)) + 1 = 3
       \<and> length (str_nat (len m)) = 4
       \<and> format_width 1 3 = ''  1''
       \<and> format_width 1000 3 = ''1000''"
proof -
  have ne: "menu_items m \<noteq> []" using assms(1) by (auto simp: len_def)
  have fl: "math_floor (lg (len m)) + 1 = 3"
    using assms by (simp add: math_floor_def floor_eq_iff)
  have d: "length (str_nat 1000) = 4" by code_simp
  have f1: "format_width 1 3 = ''  1''" by code_simp
  have f2: "format_width 1000 3 = ''1000''" by code_simp
  have pr: "BaseMenu_print lg m out =
      (Inr (),
       (let out2 = (case name m of None \<Rightarrow> py_print [newline] out
                    | Some nm \<Rightarrow> py_print nm (py_print [newline] out));
            out3 = print_items 3 1 (menu_items m) out2
        in if display_exit m
           then py_print (format_width 0 3 @ '': '' @ exit_text m) out3
           else out3))"
    by (simp only: BaseMenu_print_nonempty [OF ne] fl Let_def)
  show ?thesis
    using fl d f1 f2 by (simp add: pr assms(1))
qed

theorem width_three_for_1000_items_witness:
  "len thousand_menu = 1000 \<and> 2 \<le> rounding_lg 1000 \<and> rounding_lg 1000 < 3
   \<and> fst (BaseMenu_print rounding_lg thousand_menu []) = Inr ()
   \<and> math_floor (rounding_lg (len thousand_menu)) + 1 = 3
   \<and> length (str_nat (len thousand_menu)) = 4
   \<and> format_width 1 3 = ''  1''
   \<and> format_width 1000 3 = ''1000''"
proof -
  have h1: "len thousand_menu = 1000"
    by (simp add: len_def thousand_menu_def OptionMenu_init_def BaseMenu_init_def)
  have h2: "2 \<le> rounding_lg 1000" by (simp add: rounding_lg_def)
  have h3: "rounding_lg 1000 < 3" by (simp add: rounding_lg_def)
  show ?thesis
    using width_three_for_1000_items [where lg = rounding_lg and m = thousand_menu
        and out = "[]", OF h1 h2 h3] h1 h2 h3 by blast
qed

section \<open>Errors of the selection loops\<close>

text \<open>
  Claim C5. In both loops the prompt is formatted, the line is read and
  \<^verbatim>\<open>int\<close> is applied in the condition of the \<^verbatim>\<open>while\<close> statement, outside the
  \<^verbatim>\<open>try\<close> statement. In any round, whatever was written and done before, a
  line that \<^verbatim>\<open>int\<close> rejects ends the loop with that \<^verbatim>\<open>ValueError\<close>, and the end
  of the input ends it with \<^verbatim>\<open>EOFError\<close>: after the prompt nothing more is
  written, no further line is read, and the state is unchanged. On a menu with
  items \<^verbatim>\<open>display\<close> hands the exception of the first round on to its caller.
\<close>

theorem unparsable_input_is_fatal:
  assumes "prompt_text m = Inr p" and "prompt_text om = Inr q"
    and "py_int line = Inl e"
  shows "Menu_loop lg m (line # rest) out s = (Inl e, rest, out @ p, s)
       \<and> Menu_loop lg m [] out s = (Inl EOFError, [], out @ p, s)
       \<and> OptionMenu_loop lg om (line # rest) out = (Inl e, rest, out @ q)
       \<and> OptionMenu_loop lg om [] out = (Inl EOFError, [], out @ q)
       \<and> e = ValueError InvalidLiteral
       \<and> (menu_items m \<noteq> [] \<longrightarrow>
            Menu_display lg m (line # rest) out s =
              (Inl e, rest, out @ snd (BaseMenu_print lg m []) @ p, s)
            \<and> Menu_display lg m [] out s =
              (Inl EOFError, [], out @ snd (BaseMenu_print lg m []) @ p, s))
       \<and> (menu_items om \<noteq> [] \<longrightarrow>
            OptionMenu_display lg om (line # rest) out =
              (Inl e, rest, out @ snd (BaseMenu_print lg om []) @ q)
            \<and> OptionMenu_display lg om [] out =
              (Inl EOFError, [], out @ snd (BaseMenu_print lg om []) @ q))"
proof -
  have "e = ValueError InvalidLiteral"
    using assms(3) by (auto simp: py_int_def Let_def split: option.splits if_splits)
  then show ?thesis
    using assms by (simp add: Menu_display_nonempty OptionMenu_display_nonempty)
qed

theorem unparsable_input_is_fatal_witness:
  "prompt_text (counter_menu ()) = Inr ''Please select an option [0-2]: ''
   \<and> prompt_text red_blue = Inr ''Please select an option [0-2]: ''
   \<and> py_int ''abc'' = Inl (ValueError InvalidLiteral)
   \<and> menu_items (counter_menu ()) \<noteq> [] \<and> menu_items red_blue \<noteq> []
   \<and> Menu_loop digits_lg (counter_menu ()) [''abc'', ''1''] [] 0 =
       (Inl (ValueError InvalidLiteral), [''1''], ''Please select an option [0-2]: '', 0)
   \<and> Menu_loop digits_lg (counter_menu ()) [] [] 0 =
       (Inl EOFError, [], ''Please select an option [0-2]: '', 0)
   \<and> OptionMenu_loop digits_lg red_blue [''abc'', ''1''] [] =
       (Inl (ValueError InvalidLiteral), [''1''], ''Please select an option [0-2]: '')
   \<and> OptionMenu_loop digits_lg red_blue [] [] =
       (Inl EOFError, [], ''Please select an option [0-2]: '')
   \<and> Menu_display digits_lg (counter_menu ()) [''abc'', ''1''] [] 0 =
       (Inl (ValueError InvalidLiteral), [''1''],
        [CHR 0x0A, CHR 0x0A] @ ''1: A'' @ [CHR 0x0A] @ ''2: B'' @ [CHR 0x0A]
          @ ''0: Exit'' @ [CHR 0x0A] @ ''Please select an option [0-2]: '', 0)
   \<and> OptionMenu_display digits_lg red_blue [] [] =
       (Inl EOFError, [],
        [CHR 0x0A, CHR 0x0A] @ ''1: Red'' @ [CHR 0x0A] @ ''2: Blue'' @ [CHR 0x0A]
          @ ''Please select an option [0-2]: '')"
proof -
  let ?p = "''Please select an option [0-2]: ''"
  have h1: "prompt_text (counter_menu ()) = Inr ?p"
    by (rule counter_menu_prompt)
  have h2: "prompt_text red_blue = Inr ?p"
    by code_simp
  have h3: "py_int ''abc'' = Inl (ValueError InvalidLiteral)"
    by code_simp
  have n1: "menu_items (counter_menu ()) \<noteq> []" by (simp add: counter_menu_items)
  have n2: "menu_items red_blue \<noteq> []" by (simp add: items_red_blue)
  have r1: "snd (BaseMenu_print digits_lg (counter_menu ()) []) =
      [CHR 0x0A, CHR 0x0A] @ ''1: A'' @ [CHR 0x0A] @ ''2: B'' @ [CHR 0x0A]
        @ ''0: Exit'' @ [CHR 0x0A]"
    by code_simp
  have r2: "snd (BaseMenu_print digits_lg red_blue []) =
      [CHR 0x0A, CHR 0x0A] @ ''1: Red'' @ [CHR 0x0A] @ ''2: Blue'' @ [CHR 0x0A]"
    by code_simp
  note T = unparsable_input_is_fatal [OF h1 h2 h3, where lg = digits_lg
      and rest = "[''1'']" and out = "[]" and s = "0::nat"]
  have a: "Menu_loop digits_lg (counter_menu ()) [''abc'', ''1''] [] 0 =
      (Inl (ValueError InvalidLiteral), [''1''], [] @ ?p, 0)"
    using T by blast
  have b: "Menu_loop digits_lg (counter_menu ()) [] [] 0 = (Inl EOFError, [], [] @ ?p, 0)"
    using T by blast
  have c: "OptionMenu_loop digits_lg red_blue [''abc'', ''1''] [] =
      (Inl (ValueError InvalidLiteral), [''1''], [] @ ?p)"
    using T by blast
  have d: "OptionMenu_loop digits_lg red_blue [] [] = (Inl EOFError, [], [] @ ?p)"
    using T by blast
  have e: "Menu_display digits_lg (counter_menu ()) [''abc'', ''1''] [] 0 =
      (Inl (ValueError InvalidLiteral), [''1''],
       [] @ snd (BaseMenu_print digits_lg (counter_menu ()) []) @ ?p, 0)"
    using T n1 by blast
  have f: "OptionMenu_display digits_lg red_blue [] [] =
      (Inl EOFError, [], [] @ snd (BaseMenu_print digits_lg red_blue []) @ ?p)"
    using T n2 by blast
  show ?thesis
    using h1 h2 h3 n1 n2 a b c d e [unfolded r1] f [unfolded r2]
    by (simp only: append_Nil append_assoc simp_thms)
qed

text \<open>
  A number above the number of items makes \<^verbatim>\<open>get_selection\<close> raise
  \<^verbatim>\<open>IndexError\<close>, which the handler of either loop catches: the invalid-option
  text is written after the prompt, the menu is rendered again, without
  failure, and the loop is at its head again with the lines that are left; what
  it writes next is the prompt. When the callback of the selected item raises
  an exception that is not an instance of \<^verbatim>\<open>IndexError\<close>, the loop ends with that
  exception.
\<close>

lemma out_of_range_selection_reprompts:
  assumes "prompt_text m = Inr p" and "prompt_text om = Inr q"
    and "py_int line = Inr sel" and "int (len m) < sel" and "int (len om) < sel"
    and "menu_items m \<noteq> []" and "menu_items om \<noteq> []"
  shows "Menu_loop lg m (line # rest) out s =
           Menu_loop lg m rest
             (out @ p @ invalid_option_text m @ [newline] @ snd (BaseMenu_print lg m [])) s
       \<and> fst (BaseMenu_print lg m (out @ p @ invalid_option_text m @ [newline])) = Inr ()
       \<and> (\<exists>t. fst (snd (snd (Menu_loop lg m (line # rest) out s))) =
                out @ p @ invalid_option_text m @ [newline] @ snd (BaseMenu_print lg m [])
                  @ p @ t)
       \<and> OptionMenu_loop lg om (line # rest) out =
           OptionMenu_loop lg om rest
             (out @ q @ invalid_option_text om @ [newline] @ snd (BaseMenu_print lg om []))
       \<and> fst (BaseMenu_print lg om (out @ q @ invalid_option_text om @ [newline])) = Inr ()
       \<and> (\<exists>t. snd (snd (OptionMenu_loop lg om (line # rest) out)) =
                out @ q @ invalid_option_text om @ [newline] @ snd (BaseMenu_print lg om [])
                  @ q @ t)
       \<and> (\<forall>line2 sel2 item e s1.
             py_int line2 = Inr sel2 \<and> sel2 \<noteq> 0 \<and> get_selection m sel2 = Inr item
             \<and> callback item s = (Inl e, s1) \<and> \<not> is_IndexError e
             \<longrightarrow> Menu_loop lg m (line2 # rest) out s = (Inl e, rest, out @ p, s1))"
proof -
  let ?out1 = "out @ p @ invalid_option_text m @ [newline] @ snd (BaseMenu_print lg m [])"
  let ?out2 = "out @ q @ invalid_option_text om @ [newline] @ snd (BaseMenu_print lg om [])"
  have a: "Menu_loop lg m (line # rest) out s = Menu_loop lg m rest ?out1 s"
    by (rule Menu_loop_above [OF assms(1,3,4,6)])
  have a': "\<exists>t. fst (snd (snd (Menu_loop lg m (line # rest) out s))) = ?out1 @ p @ t"
    unfolding a using Menu_loop_prompts_first [OF assms(1), of lg rest ?out1 s] by simp
  have b: "OptionMenu_loop lg om (line # rest) out = OptionMenu_loop lg om rest ?out2"
    by (rule OptionMenu_loop_above [OF assms(2,3,5,7)])
  have b': "\<exists>t. snd (snd (OptionMenu_loop lg om (line # rest) out)) = ?out2 @ q @ t"
    unfolding b using OptionMenu_loop_prompts_first [OF assms(2), of lg rest ?out2] by simp
  have c: "\<forall>line2 sel2 item e s1.
             py_int line2 = Inr sel2 \<and> sel2 \<noteq> 0 \<and> get_selection m sel2 = Inr item
             \<and> callback item s = (Inl e, s1) \<and> \<not> is_IndexError e
             \<longrightarrow> Menu_loop lg m (line2 # rest) out s = (Inl e, rest, out @ p, s1)"
    using Menu_loop_callback_raises [OF assms(1)] by blast
  have d: "fst (BaseMenu_print lg m (out @ p @ invalid_option_text m @ [newline])) = Inr ()"
    by (rule BaseMenu_print_ok [OF assms(6)])
  have e: "fst (BaseMenu_print lg om (out @ q @ invalid_option_text om @ [newline])) = Inr ()"
    by (rule BaseMenu_print_ok [OF assms(7)])
  from a a' b b' c d e show ?thesis
    by (simp only: append_assoc simp_thms)
qed

lemma out_of_range_selection_reprompts_example:
  "prompt_text raising_menu = Inr ''Please select an option [0-2]: ''
   \<and> prompt_text red_blue = Inr ''Please select an option [0-2]: ''
   \<and> py_int ''5'' = Inr 5 \<and> int (len raising_menu) < 5 \<and> int (len red_blue) < 5
   \<and> menu_items raising_menu \<noteq> [] \<and> menu_items red_blue \<noteq> []
   \<and> Menu_loop digits_lg raising_menu [''5'', ''0''] [] 0 =
       (Inr (), [],
        ''Please select an option [0-2]: Invalid option'' @ [CHR 0x0A, CHR 0x0A, CHR 0x0A]
          @ ''1: A'' @ [CHR 0x0A] @ ''2: B'' @ [CHR 0x0A] @ ''0: Exit'' @ [CHR 0x0A]
          @ ''Please select an option [0-2]: '', 0)
   \<and> OptionMenu_loop digits_lg red_blue [''5'', ''0''] [] =
       (Inr PyNone, [],
        ''Please select an option [0-2]: Invalid option'' @ [CHR 0x0A, CHR 0x0A, CHR 0x0A]
          @ ''1: Red'' @ [CHR 0x0A] @ ''2: Blue'' @ [CHR 0x0A]
          @ ''Please select an option [0-2]: '')
   \<and> py_int ''2'' = Inr 2 \<and> get_selection raising_menu 2 = Inr raising_item
   \<and> callback raising_item 0 = (Inl (UserError ''RuntimeError''), 0)
   \<and> Menu_loop digits_lg raising_menu [''2'', ''0''] [] 0 =
       (Inl (UserError ''RuntimeError''), [''0''], ''Please select an option [0-2]: '', 0)"
proof -
  let ?p = "''Please select an option [0-2]: ''"
  have h1: "prompt_text raising_menu = Inr ?p" by code_simp
  have h2: "prompt_text red_blue = Inr ?p" by code_simp
  have h3: "py_int ''5'' = Inr 5" by code_simp
  have it: "menu_items raising_menu =
      [\<lparr>display = Some ''A'', callback = incrementCounter ()\<rparr>, raising_item]"
    by (simp add: raising_menu_def Menu_init_def BaseMenu_init_def)
  have h4: "int (len raising_menu) < 5" by (simp add: len_def it)
  have h5: "int (len red_blue) < 5" by (simp add: len_red_blue)
  have h6: "menu_items raising_menu \<noteq> []" by (simp add: it)
  have h7: "menu_items red_blue \<noteq> []" by (simp add: items_red_blue)
  have g1: "py_int ''2'' = Inr 2" by code_simp
  have g2: "get_selection raising_menu 2 = Inr raising_item"
    by (simp add: get_selection_py_index py_index_def it)
  have g3: "callback raising_item 0 = (Inl (UserError ''RuntimeError''), 0)"
    by (simp add: raising_item_def raiseError_def)
  note T = out_of_range_selection_reprompts [OF h1 h2 h3 h4 h5 h6 h7,
      where lg = digits_lg and rest = "[''0'']" and out = "[]" and s = "0::nat"]
  have a: "Menu_loop digits_lg raising_menu [''5'', ''0''] [] 0 =
      Menu_loop digits_lg raising_menu [''0'']
        ([] @ ?p @ invalid_option_text raising_menu @ [newline]
           @ snd (BaseMenu_print digits_lg raising_menu [])) 0"
    using T by blast
  have a': "Menu_loop digits_lg raising_menu [''0'']
        ([] @ ?p @ invalid_option_text raising_menu @ [newline]
           @ snd (BaseMenu_print digits_lg raising_menu [])) 0 =
       (Inr (), [],
        ''Please select an option [0-2]: Invalid option'' @ [CHR 0x0A, CHR 0x0A, CHR 0x0A]
          @ ''1: A'' @ [CHR 0x0A] @ ''2: B'' @ [CHR 0x0A] @ ''0: Exit'' @ [CHR 0x0A]
          @ ''Please select an option [0-2]: '', 0)"
    by code_simp
  have b: "OptionMenu_loop digits_lg red_blue [''5'', ''0''] [] =
      OptionMenu_loop digits_lg red_blue [''0'']
        ([] @ ?p @ invalid_option_text red_blue @ [newline]
           @ snd (BaseMenu_print digits_lg red_blue []))"
    using T by blast
  have b': "OptionMenu_loop digits_lg red_blue [''0'']
        ([] @ ?p @ invalid_option_text red_blue @ [newline]
           @ snd (BaseMenu_print digits_lg red_blue [])) =
       (Inr PyNone, [],
        ''Please select an option [0-2]: Invalid option'' @ [CHR 0x0A, CHR 0x0A, CHR 0x0A]
          @ ''1: Red'' @ [CHR 0x0A] @ ''2: Blue'' @ [CHR 0x0A]
          @ ''Please select an option [0-2]: '')"
    by code_simp
  have n1: "(2::int) \<noteq> 0" by simp
  have n2: "\<not> is_IndexError (UserError ''RuntimeError'')" by (simp add: is_IndexError_def)
  have c: "Menu_loop digits_lg raising_menu [''2'', ''0''] [] 0 =
       (Inl (UserError ''RuntimeError''), [''0''], [] @ ?p, 0)"
    using T g1 g2 g3 n1 n2 by blast
  show ?thesis
    using h1 h2 h3 h4 h5 h6 h7 g1 g2 g3 trans [OF a a'] trans [OF b b'] c
    by (simp only: append_Nil simp_thms)
qed

text \<open>
  Claim C6. Besides the selections out of range, the claim says that nothing
  else is recovered inside the loop. In \<^verbatim>\<open>Menu.display\<close> the call of the callback
  stands inside the \<^verbatim>\<open>try\<close> statement, so the handler that is there for the
  lookup also catches an \<^verbatim>\<open>IndexError\<close>, or an instance of a subclass of it, that
  the callback of a valid selection raises: the invalid-option text is written
  for a selection that was valid, the menu is rendered again, the loop goes on
  with the lines that are left and with the state as the callback left it, and
  the exception never reaches the caller.
\<close>

theorem callback_IndexError_is_swallowed:
  assumes "prompt_text m = Inr p" and "py_int line = Inr i"
    and "1 \<le> i" and "i \<le> int (len m)"
    and "callback (menu_items m ! nat (i - 1)) s = (Inl e, s1)" and "is_IndexError e"
  shows "get_selection m i = Inr (menu_items m ! nat (i - 1))
       \<and> Menu_loop lg m (line # rest) out s =
           Menu_loop lg m rest
             (out @ p @ invalid_option_text m @ [newline] @ snd (BaseMenu_print lg m [])) s1
       \<and> (\<exists>t. fst (snd (snd (Menu_loop lg m (line # rest) out s))) =
                out @ p @ invalid_option_text m @ [newline] @ snd (BaseMenu_print lg m [])
                  @ p @ t)
       \<and> Menu_display lg m (line # rest) out s =
           Menu_loop lg m rest
             (out @ snd (BaseMenu_print lg m []) @ p @ invalid_option_text m @ [newline]
                @ snd (BaseMenu_print lg m [])) s1"
proof -
  let ?R = "snd (BaseMenu_print lg m [])"
  have ne: "menu_items m \<noteq> []" using assms(3,4) by (auto simp: len_def)
  have i0: "i \<noteq> 0" using assms(3) by simp
  have gs: "get_selection m i = Inr (menu_items m ! nat (i - 1))"
    by (rule get_selection_in_range [OF assms(3,4)])
  have a: "\<And>t. Menu_loop lg m (line # rest) t s =
           Menu_loop lg m rest (t @ p @ invalid_option_text m @ [newline] @ ?R) s1"
    by (rule Menu_loop_callback_IndexError [OF assms(1,2) i0 gs assms(5,6)])
  have b: "\<exists>t. fst (snd (snd (Menu_loop lg m (line # rest) out s))) =
                out @ p @ invalid_option_text m @ [newline] @ ?R @ p @ t"
    unfolding a
    using Menu_loop_prompts_first [OF assms(1), of lg rest
        "out @ p @ invalid_option_text m @ [newline] @ ?R" s1]
    by simp
  have c: "Menu_display lg m (line # rest) out s =
           Menu_loop lg m rest
             (out @ ?R @ p @ invalid_option_text m @ [newline] @ ?R) s1"
    unfolding Menu_display_nonempty [OF ne] a by simp
  from gs a [of out] b c show ?thesis by blast
qed

theorem callback_IndexError_is_swallowed_witness:
  "prompt_text index_error_menu = Inr ''Please select an option [0-2]: ''
   \<and> py_int ''1'' = Inr 1 \<and> (1::int) \<le> 1 \<and> (1::int) \<le> int (len index_error_menu)
   \<and> callback (menu_items index_error_menu ! nat (1 - 1)) 0 = (Inl IndexError, 1)
   \<and> is_IndexError IndexError
   \<and> get_selection index_error_menu 1 = Inr (menu_items index_error_menu ! nat (1 - 1))
   \<and> Menu_display digits_lg index_error_menu [''1'', ''0'', ''2''] [] 0 =
       (Inr (), [''2''],
        [CHR 0x0A, CHR 0x0A] @ ''1: A'' @ [CHR 0x0A] @ ''2: B'' @ [CHR 0x0A]
          @ ''0: Exit'' @ [CHR 0x0A]
          @ ''Please select an option [0-2]: Invalid option'' @ [CHR 0x0A]
          @ [CHR 0x0A, CHR 0x0A] @ ''1: A'' @ [CHR 0x0A] @ ''2: B'' @ [CHR 0x0A]
          @ ''0: Exit'' @ [CHR 0x0A]
          @ ''Please select an option [0-2]: '', 1)"
proof -
  let ?p = "''Please select an option [0-2]: ''"
  let ?R = "snd (BaseMenu_print digits_lg index_error_menu [])"
  have it: "menu_items index_error_menu =
      [\<lparr>display = Some ''A'', callback = raiseIndexError\<rparr>,
       \<lparr>display = Some ''B'', callback = incrementCounter ()\<rparr>]"
    by (simp add: index_error_menu_def Menu_init_def BaseMenu_init_def)
  have h1: "prompt_text index_error_menu = Inr ?p" by code_simp
  have h2: "py_int ''1'' = Inr 1" by (rule py_int_1)
  have h3: "(1::int) \<le> 1" by simp
  have h4: "(1::int) \<le> int (len index_error_menu)" by (simp add: len_def it)
  have h5: "callback (menu_items index_error_menu ! nat (1 - 1)) 0 = (Inl IndexError, 1)"
    by (simp add: it raiseIndexError_def)
  have h6: "is_IndexError IndexError" by (simp add: is_IndexError_def)
  note T = callback_IndexError_is_swallowed [OF h1 h2 h3 h4 h5 h6, where lg = digits_lg
      and rest = "[''0'', ''2'']" and out = "[]"]
  have a: "Menu_display digits_lg index_error_menu [''1'', ''0'', ''2''] [] 0 =
      Menu_loop digits_lg index_error_menu [''0'', ''2'']
        ([] @ ?R @ ?p @ invalid_option_text index_error_menu @ [newline] @ ?R) 1"
    using T by blast
  have a': "Menu_loop digits_lg index_error_menu [''0'', ''2'']
        ([] @ ?R @ ?p @ invalid_option_text index_error_menu @ [newline] @ ?R) 1 =
       (Inr (), [''2''],
        [CHR 0x0A, CHR 0x0A] @ ''1: A'' @ [CHR 0x0A] @ ''2: B'' @ [CHR 0x0A]
          @ ''0: Exit'' @ [CHR 0x0A]
          @ ''Please select an option [0-2]: Invalid option'' @ [CHR 0x0A]
          @ [CHR 0x0A, CHR 0x0A] @ ''1: A'' @ [CHR 0x0A] @ ''2: B'' @ [CHR 0x0A]
          @ ''0: Exit'' @ [CHR 0x0A]
          @ ''Please select an option [0-2]: '', 1)"
    by code_simp
  have g: "get_selection index_error_menu 1 = Inr (menu_items index_error_menu ! nat (1 - 1))"
    using T by blast
  from h1 h2 h3 h4 h5 h6 g trans [OF a a'] show ?thesis by blast
qed

section \<open>The two loops on valid selections\<close>

text \<open>
  Claim C8. On the menu with the items A and B, both with the callback
  \<open>incrementCounter\<close>, and the lines 1, 1 and 0, the callback of A is called
  twice, so that the counter ends two above its start; what the callback
  returns is dropped. The loop ends at the line 0 and leaves the lines after it
  unread; the menu is rendered and the prompt written three times. The result
  is the empty one.
\<close>

theorem increment_twice_then_exit:
  "Menu_display lg (counter_menu r) (''1'' # ''1'' # ''0'' # rest) out c =
     (Inr (), rest,
      out @ snd (BaseMenu_print lg (counter_menu r) []) @ ''Please select an option [0-2]: ''
          @ snd (BaseMenu_print lg (counter_menu r) []) @ ''Please select an option [0-2]: ''
          @ snd (BaseMenu_print lg (counter_menu r) []) @ ''Please select an option [0-2]: '',
      c + 2)"
proof -
  let ?m = "counter_menu r"
  let ?p = "''Please select an option [0-2]: ''"
  have ne: "menu_items ?m \<noteq> []" by (simp add: counter_menu_items)
  have ln: "len ?m = 2" by (simp add: len_def counter_menu_items)
  have cb: "\<And>k. callback (menu_items ?m ! nat (1 - 1)) k = (Inr r, k + 1)"
    by (simp add: counter_menu_items incrementCounter_def)
  have step: "\<And>rest' t k. Menu_loop lg ?m (''1'' # rest') t k =
      Menu_loop lg ?m rest' (t @ ?p @ snd (BaseMenu_print lg ?m [])) (k + 1)"
    by (rule Menu_loop_valid [OF counter_menu_prompt py_int_1 _ _ cb]) (simp_all add: ln)
  have stop: "\<And>t k. Menu_loop lg ?m (''0'' # rest) t k = (Inr (), rest, t @ ?p, k)"
    by (rule Menu_loop_exit [OF counter_menu_prompt py_int_0])
  show ?thesis
    by (simp only: Menu_display_nonempty [OF ne] step stop) simp
qed

theorem increment_twice_then_exit_witness:
  "Menu_display digits_lg (counter_menu ()) [''1'', ''1'', ''0'', ''2''] [] 0 =
     (Inr (), [''2''],
      [CHR 0x0A, CHR 0x0A] @ ''1: A'' @ [CHR 0x0A] @ ''2: B'' @ [CHR 0x0A]
        @ ''0: Exit'' @ [CHR 0x0A] @ ''Please select an option [0-2]: ''
        @ [CHR 0x0A, CHR 0x0A] @ ''1: A'' @ [CHR 0x0A] @ ''2: B'' @ [CHR 0x0A]
        @ ''0: Exit'' @ [CHR 0x0A] @ ''Please select an option [0-2]: ''
        @ [CHR 0x0A, CHR 0x0A] @ ''1: A'' @ [CHR 0x0A] @ ''2: B'' @ [CHR 0x0A]
        @ ''0: Exit'' @ [CHR 0x0A] @ ''Please select an option [0-2]: '',
      2)"
proof -
  have r: "snd (BaseMenu_print digits_lg (counter_menu ()) []) =
      [CHR 0x0A, CHR 0x0A] @ ''1: A'' @ [CHR 0x0A] @ ''2: B'' @ [CHR 0x0A]
        @ ''0: Exit'' @ [CHR 0x0A]"
    by code_simp
  show ?thesis
    using increment_twice_then_exit [of digits_lg "()" "[''2'']" "[]" 0]
    by (simp only: r) simp
qed

text \<open>
  Claim C9. On an option menu, a first line that reads as a number \<open>i\<close> from 1 to
  the number of items makes \<^verbatim>\<open>display\<close> return the value of the \<open>i\<close>-th item at
  once: the output is the rendering and one prompt, and the lines after the
  first are left unread.
\<close>

theorem valid_first_selection_returns_value:
  assumes "prompt_text m = Inr p" and "py_int line = Inr i"
    and "1 \<le> i" and "i \<le> int (len m)"
  shows "OptionMenu_display lg m (line # rest) out =
         (Inr (value (menu_items m ! nat (i - 1))), rest,
          out @ snd (BaseMenu_print lg m []) @ p)"
proof -
  have ne: "menu_items m \<noteq> []" using assms(3,4) by (auto simp: len_def)
  show ?thesis
    unfolding OptionMenu_display_nonempty [OF ne]
    using OptionMenu_loop_valid [OF assms, of lg rest "out @ snd (BaseMenu_print lg m [])"]
    by simp
qed

theorem valid_first_selection_returns_value_witness:
  "prompt_text red_blue = Inr ''Please select an option [0-2]: ''
   \<and> py_int ''2'' = Inr 2 \<and> (1::int) \<le> 2 \<and> (2::int) \<le> int (len red_blue)
   \<and> OptionMenu_display digits_lg red_blue [''2'', ''1''] [] =
       (Inr (PyStr ''B''), [''1''],
        [CHR 0x0A, CHR 0x0A] @ ''1: Red'' @ [CHR 0x0A] @ ''2: Blue'' @ [CHR 0x0A]
          @ ''Please select an option [0-2]: '')"
proof -
  have h1: "prompt_text red_blue = Inr ''Please select an option [0-2]: ''" by code_simp
  have h2: "py_int ''2'' = Inr 2" by code_simp
  have h3: "(1::int) \<le> 2" by simp
  have h4: "(2::int) \<le> int (len red_blue)" by (simp add: len_red_blue)
  have v: "value (menu_items red_blue ! nat (2 - 1)) = PyStr ''B''"
    by (simp add: items_red_blue blue_item_def)
  have r: "snd (BaseMenu_print digits_lg red_blue []) =
     [CHR 0x0A, CHR 0x0A] @ ''1: Red'' @ [CHR 0x0A] @ ''2: Blue'' @ [CHR 0x0A]"
    by code_simp
  show ?thesis
    using valid_first_selection_returns_value [OF h1 h2 h3 h4, of digits_lg "[''1'']" "[]"]
      h1 h2 h3 h4 v r by simp
qed

section \<open>The basic menus without items\<close>

text \<open>
  Claim C10. \<^verbatim>\<open>BasicMenu\<close> and \<^verbatim>\<open>BasicOptionMenu\<close> declare \<^verbatim>\<open>items = None\<close>. A call
  that omits the items, or passes \<^verbatim>\<open>None\<close>, fails with the \<^verbatim>\<open>AttributeError\<close> of
  \<^verbatim>\<open>items.items()\<close>: nothing has been written, no line has been read and
  no callback has run.
\<close>

theorem basic_menus_need_items:
  "BasicMenu_init lg name_arg Omitted inp out s = (Inl AttributeError, inp, out, s)
   \<and> BasicMenu_init lg name_arg (Passed None) inp out s = (Inl AttributeError, inp, out, s)
   \<and> BasicOptionMenu_init lg name_arg Omitted inp out = (Inl AttributeError, inp, out)
   \<and> BasicOptionMenu_init lg name_arg (Passed None) inp out = (Inl AttributeError, inp, out)"
  by (simp add: BasicMenu_init_def BasicOptionMenu_init_def with_default_def dict_items_def)

end
